theory Spec2Isabelle
  imports Main "HOL-Library.Sublist" "HOL-Library.Multiset"
begin

section \<open>Dataset compliance constants (wherehows-web/app/constants/dataset-compliance.ts)\<close>

text \<open>
  A shallow embedding of the pure functions of the module: the option mapper
  (\<open>getFieldIdentifierOption\<close>, \<open>getFieldIdentifierOptions\<close>), the wizard step
  sequencer (\<open>complianceSteps\<close>, \<open>getComplianceSteps\<close>) and the entity filter and
  sanitizer (\<open>isEditableComplianceEntity\<close>, \<open>filterEditableEntities\<close>,
  \<open>removeReadonlyAttr\<close>).
\<close>

subsection \<open>Wizard steps\<close>

text \<open>
  A step descriptor is the object \<^verbatim>\<open>{ name: string }\<close>. The step table has the type
  \<^verbatim>\<open>{ [x: number]: { name: string } }\<close>: an object indexed by numbers, modelled as
  a partial map from naturals to descriptors.
\<close>

record step =
  name :: string

type_synonym steps = "nat \<rightharpoonup> step"

text \<open>
  \<^verbatim>\<open>
  const complianceSteps = {
    0: { name: 'editCompliancePolicy' },
    1: { name: 'editPurgePolicy' },
    2: { name: 'editDatasetClassification' }
  };
  \<close>
\<close>

definition complianceSteps :: steps where
  "complianceSteps =
     [0 \<mapsto> \<lparr>name = ''editCompliancePolicy''\<rparr>,
      1 \<mapsto> \<lparr>name = ''editPurgePolicy''\<rparr>,
      2 \<mapsto> \<lparr>name = ''editDatasetClassification''\<rparr>]"

text \<open>
  \<^verbatim>\<open>
  const getComplianceSteps = (hasSchema: boolean = true) => {
    const piiTaggingStep = { 0: { name: 'editDatasetLevelCompliancePolicy' } };
    if (!hasSchema) {
      return { ...complianceSteps, ...piiTaggingStep };
    }
    return complianceSteps;
  };
  \<close>
  The optional parameter is a \<open>bool option\<close>: \<open>None\<close> is the call without an
  argument, for which the default \<open>true\<close> is taken. The object spread
  \<^verbatim>\<open>{ ...a, ...b }\<close> copies the properties of \<open>a\<close> and then those of \<open>b\<close>, a later
  property replacing an earlier one with the same key: the map \<open>a ++ b\<close>.
\<close>

definition getComplianceSteps :: "bool option \<Rightarrow> steps" where
  "getComplianceSteps hasSchemaArg =
     (let hasSchema = (case hasSchemaArg of None \<Rightarrow> True | Some b \<Rightarrow> b);
          piiTaggingStep = [0 \<mapsto> \<lparr>name = ''editDatasetLevelCompliancePolicy''\<rparr>]
      in if \<not> hasSchema then complianceSteps ++ piiTaggingStep else complianceSteps)"

subsection \<open>Option mapper\<close>

text \<open>
  \<^verbatim>\<open>IComplianceDataType\<close> is declared in the typings of the application; the
  function reads its \<^verbatim>\<open>id\<close> and \<^verbatim>\<open>title\<close> only. The record is extensible, so a
  catalog entry with more attributes is an instance of \<open>'more\<close>. The identifier type
  \<^verbatim>\<open>ComplianceFieldIdValue\<close> is an enumeration of another module and stays a type
  parameter.
\<close>

record 'id complianceDataType =
  id_field :: 'id
  title :: string

text \<open>
  \<^verbatim>\<open>
  interface IFieldIdentifierOption<T> {
    value: T;
    label: string;
    isDisabled?: boolean;
  }
  \<close>
  The optional attribute is an \<open>option\<close>: \<open>None\<close> when the object has no such key.
\<close>

record 'v fieldIdentifierOption =
  value_field :: 'v
  label :: string
  isDisabled :: "bool option"

text \<open>
  \<^verbatim>\<open>
  const getFieldIdentifierOption = (complianceDataType) => {
    const { id, title } = complianceDataType;
    return { value: id, label: title };
  };
  \<close>
\<close>

definition getFieldIdentifierOption ::
  "('id, 'more) complianceDataType_scheme \<Rightarrow> 'id fieldIdentifierOption" where
  "getFieldIdentifierOption complianceDataType =
     (let i = id_field complianceDataType; t = title complianceDataType
      in \<lparr>value_field = i, label = t, isDisabled = None\<rparr>)"

text \<open>
  Modelled from the spec: \<^verbatim>\<open>arrayMap\<close> of \<^verbatim>\<open>wherehows-web/utils/array\<close>, which is
  not among the sources. The spec has the list form of a mapper apply it
  ``to each element, preserving input order and length (total function, no filtering,
  no failure mode -- empty input yields empty output)''. The recursion visits the
  elements from the first to the last and emits one result for each.
\<close>

primrec arrayMap :: "('a \<Rightarrow> 'b) \<Rightarrow> 'a list \<Rightarrow> 'b list" where
  "arrayMap mappingFunction [] = []"
| "arrayMap mappingFunction (x # array) = mappingFunction x # arrayMap mappingFunction array"

text \<open>\<^verbatim>\<open>const getFieldIdentifierOptions = arrayMap(getFieldIdentifierOption);\<close>\<close>

definition getFieldIdentifierOptions ::
  "('id, 'more) complianceDataType_scheme list \<Rightarrow> 'id fieldIdentifierOption list" where
  "getFieldIdentifierOptions = arrayMap getFieldIdentifierOption"

subsection \<open>Compliance entities\<close>

text \<open>
  \<^verbatim>\<open>IComplianceEntity\<close> is declared in the typings of the application. At run time an
  entity is a JavaScript object, and the functions below treat it as one: a key is
  read, or keys are deleted. An object is a partial map from keys to values, where a
  key can be absent, or present with the value \<^verbatim>\<open>undefined\<close>. The values are the
  primitives and references to other objects (an address, compared by identity). The
  only comparison the module makes is against the boolean \<^verbatim>\<open>true\<close>, so the payload
  of a number plays no role and integers stand for it.
\<close>

datatype jsval =
  JUndefined
| JNull
| JBool bool
| JNum int
| JStr string
| JRef nat

type_synonym entity = "string \<rightharpoonup> jsval"

text \<open>Reading a property: an absent key reads as \<^verbatim>\<open>undefined\<close>.\<close>

definition getProp :: "entity \<Rightarrow> string \<Rightarrow> jsval" where
  "getProp e k = (case e k of None \<Rightarrow> JUndefined | Some v \<Rightarrow> v)"

text \<open>
  Strict inequality \<^verbatim>\<open>a !== b\<close>: without conversion, so values of different kinds
  differ, and primitives of one kind are compared by value.
\<close>

definition strictNotEqual :: "jsval \<Rightarrow> jsval \<Rightarrow> bool" where
  "strictNotEqual a b = (a \<noteq> b)"

text \<open>
  \<^verbatim>\<open>
  const isEditableComplianceEntity = ({ readonly }: IComplianceEntity): boolean =>
    readonly !== true;
  \<close>
\<close>

definition isEditableComplianceEntity :: "entity \<Rightarrow> bool" where
  "isEditableComplianceEntity e =
     (let readonly = getProp e ''readonly'' in strictNotEqual readonly (JBool True))"

text \<open>
  Modelled from the spec: \<^verbatim>\<open>arrayFilter\<close> of \<^verbatim>\<open>wherehows-web/utils/array\<close>, which
  is not among the sources. The spec has the list form of a predicate return ``the
  subsequence (original relative order preserved) of entities for which'' the predicate
  ``holds; entities failing the predicate are dropped, not flagged''.
\<close>

primrec arrayFilter :: "('a \<Rightarrow> bool) \<Rightarrow> 'a list \<Rightarrow> 'a list" where
  "arrayFilter filtrationFunction [] = []"
| "arrayFilter filtrationFunction (x # array) =
     (if filtrationFunction x then x # arrayFilter filtrationFunction array
      else arrayFilter filtrationFunction array)"

text \<open>
  \<^verbatim>\<open>
  const filterEditableEntities = (entities) =>
    arrayFilter(isEditableComplianceEntity)(entities);
  \<close>
\<close>

definition filterEditableEntities :: "entity list \<Rightarrow> entity list" where
  "filterEditableEntities entities = arrayFilter isEditableComplianceEntity entities"

text \<open>
  Modelled from the spec: \<^verbatim>\<open>fleece\<close> of \<^verbatim>\<open>wherehows-web/utils/object\<close>, which is not
  among the sources. The spec calls it ``a shallow, per-entity, key-deletion
  transform'' that returns the entity ``with the key removed (all other attributes
  preserved exactly, including attributes with undefined/absent values elsewhere)'',
  and ``a pure copy-construct-without-field operation''. The result starts as a copy
  of the object, and each dropped key is deleted from it in turn.
\<close>

definition fleece :: "string list \<Rightarrow> entity \<Rightarrow> entity" where
  "fleece droppedKeys ob = fold (\<lambda>key partial. partial(key := None)) droppedKeys ob"

text \<open>
  \<^verbatim>\<open>
  const removeReadonlyAttr = arrayMap(fleece<IComplianceEntity, 'readonly'>(['readonly']));
  \<close>
\<close>

definition removeReadonlyAttr :: "entity list \<Rightarrow> entity list" where
  "removeReadonlyAttr = arrayMap (fleece [''readonly''])"

subsection \<open>Entities in a store\<close>

text \<open>
  Whether the input objects are modified, and whether the results are new objects, is
  a question about references, which the value model above cannot ask. The store is
  the list of all objects alive, and a reference is an index into it; a new object is
  appended, so its reference is the length of the store before.
\<close>

type_synonym ref = nat

type_synonym store = "entity list"

definition alloc :: "entity \<Rightarrow> store \<Rightarrow> ref \<times> store" where
  "alloc ob s = (length s, s @ [ob])"

text \<open>
  Modelled from the spec: \<^verbatim>\<open>fleece\<close> on references. The spec demands that ``it must
  not mutate the input entities; it returns new objects'': the object behind the
  reference is read, the copy without the dropped keys is a new object of the store,
  and its reference is returned.
\<close>

definition fleece_store :: "string list \<Rightarrow> ref \<Rightarrow> store \<Rightarrow> ref \<times> store" where
  "fleece_store droppedKeys r s = alloc (fleece droppedKeys (s ! r)) s"

text \<open>
  Modelled from the spec: \<^verbatim>\<open>arrayMap\<close> with a mapper that works on the store. The
  elements are visited from the first to the last, each call of the mapper starting
  from the store the call before left.
\<close>

primrec arrayMap_store ::
  "('a \<Rightarrow> store \<Rightarrow> 'b \<times> store) \<Rightarrow> 'a list \<Rightarrow> store \<Rightarrow> 'b list \<times> store" where
  "arrayMap_store mappingFunction [] s = ([], s)"
| "arrayMap_store mappingFunction (x # array) s =
     (let (y, s1) = mappingFunction x s;
          (ys, s2) = arrayMap_store mappingFunction array s1
      in (y # ys, s2))"

definition removeReadonlyAttr_store :: "ref list \<Rightarrow> store \<Rightarrow> ref list \<times> store" where
  "removeReadonlyAttr_store = arrayMap_store (fleece_store [''readonly''])"

text \<open>The objects a list of references stands for.\<close>

definition deref :: "store \<Rightarrow> ref list \<Rightarrow> entity list" where
  "deref s rs = map (\<lambda>r. s ! r) rs"

section \<open>Properties of the step sequencer\<close>

lemma complianceSteps_dom: "dom complianceSteps = {0, 1, 2}"
  by (auto simp: complianceSteps_def split: if_splits)

lemma getComplianceSteps_dom: "dom (getComplianceSteps h) = {0, 1, 2}"
proof (cases h)
  case None
  then show ?thesis by (simp add: getComplianceSteps_def complianceSteps_dom)
next
  case (Some b)
  then show ?thesis
    by (cases b) (auto simp: getComplianceSteps_def complianceSteps_dom)
qed

text \<open>
  C2: \<open>getComplianceSteps(false)\<close> is exactly the three-entry map with
  \<open>editDatasetLevelCompliancePolicy\<close> at key 0, \<open>editPurgePolicy\<close> at key 1 and
  \<open>editDatasetClassification\<close> at key 2; it is the default map with only key 0
  overridden, so keys 1 and 2 hold the default entries.
\<close>

theorem getComplianceSteps_false_exact:
  "getComplianceSteps (Some False) =
     [0 \<mapsto> \<lparr>name = ''editDatasetLevelCompliancePolicy''\<rparr>,
      1 \<mapsto> \<lparr>name = ''editPurgePolicy''\<rparr>,
      2 \<mapsto> \<lparr>name = ''editDatasetClassification''\<rparr>]
   \<and> getComplianceSteps (Some False) =
       complianceSteps(0 \<mapsto> \<lparr>name = ''editDatasetLevelCompliancePolicy''\<rparr>)
   \<and> getComplianceSteps (Some False) 0 \<noteq> complianceSteps 0
   \<and> getComplianceSteps (Some False) 1 = complianceSteps 1
   \<and> getComplianceSteps (Some False) 2 = complianceSteps 2"
  by (auto simp: getComplianceSteps_def complianceSteps_def)

text \<open>
  C1 (as stated, refuted): the claim has \<open>getComplianceSteps(false)\<close> hold key 0 only,
  with keys 1 and 2 absent. The spread keeps the default entries at keys 1 and 2, so the
  conjunction of those statements is false.
\<close>

theorem getComplianceSteps_false_single_step_counterexample:
  "\<not> (dom (getComplianceSteps (Some False)) = {0}
      \<and> getComplianceSteps (Some False) 0 = Some \<lparr>name = ''editDatasetLevelCompliancePolicy''\<rparr>
      \<and> getComplianceSteps (Some False) 1 = None
      \<and> getComplianceSteps (Some False) 2 = None)"
  by (simp add: getComplianceSteps_def complianceSteps_def)

text \<open>
  C1 (amended): for the schema-less case \<open>getComplianceSteps(false)\<close> maps key 0 to
  \<open>editDatasetLevelCompliancePolicy\<close>, and keys 1 and 2 are present with the default
  steps \<open>editPurgePolicy\<close> and \<open>editDatasetClassification\<close>: the map has the three
  keys 0, 1 and 2.
\<close>

theorem getComplianceSteps_false_three_steps:
  "getComplianceSteps (Some False) 0 = Some \<lparr>name = ''editDatasetLevelCompliancePolicy''\<rparr>
   \<and> getComplianceSteps (Some False) 1 = Some \<lparr>name = ''editPurgePolicy''\<rparr>
   \<and> getComplianceSteps (Some False) 2 = Some \<lparr>name = ''editDatasetClassification''\<rparr>
   \<and> dom (getComplianceSteps (Some False)) = {0, 1, 2}"
  by (simp add: getComplianceSteps_dom) (simp add: getComplianceSteps_def complianceSteps_def)

text \<open>
  C3: \<open>getComplianceSteps()\<close> without an argument is exactly the default three-entry
  map, and \<open>getComplianceSteps(true)\<close> is the same map.
\<close>

theorem getComplianceSteps_default_exact:
  "getComplianceSteps None =
     [0 \<mapsto> \<lparr>name = ''editCompliancePolicy''\<rparr>,
      1 \<mapsto> \<lparr>name = ''editPurgePolicy''\<rparr>,
      2 \<mapsto> \<lparr>name = ''editDatasetClassification''\<rparr>]
   \<and> getComplianceSteps (Some True) = getComplianceSteps None"
  by (simp add: getComplianceSteps_def complianceSteps_def)

text \<open>
  C9: for every argument (a boolean, or none) the map returned by
  \<open>getComplianceSteps\<close> is not empty, its keys are exactly \<open>0, ..., n - 1\<close> for some
  \<open>n \<ge> 1\<close>, and the step at key 0 is the compliance-policy editing step:
  \<open>editDatasetLevelCompliancePolicy\<close> without a schema, \<open>editCompliancePolicy\<close>
  otherwise.
\<close>

theorem getComplianceSteps_dense_nonempty:
  "(\<exists>n. 1 \<le> n \<and> dom (getComplianceSteps h) = {0..<n})
   \<and> getComplianceSteps h \<noteq> Map.empty
   \<and> map_option name (getComplianceSteps h 0) =
       Some (if h = Some False then ''editDatasetLevelCompliancePolicy''
             else ''editCompliancePolicy'')"
proof -
  have "{0, 1, 2} = {0..<(3::nat)}" by auto
  then have d: "dom (getComplianceSteps h) = {0..<3}"
    by (simp add: getComplianceSteps_dom)
  then have "\<exists>n. 1 \<le> n \<and> dom (getComplianceSteps h) = {0..<n}"
    by (intro exI [of _ 3]) simp
  moreover from d have "getComplianceSteps h \<noteq> Map.empty"
    by (metis atLeastLessThan_empty_iff2 dom_eq_empty_conv zero_less_numeral)
  moreover have "map_option name (getComplianceSteps h 0) =
       Some (if h = Some False then ''editDatasetLevelCompliancePolicy''
             else ''editCompliancePolicy'')"
    by (cases h) (auto simp: getComplianceSteps_def complianceSteps_def)
  ultimately show ?thesis by blast
qed

section \<open>Properties of the option mapper and of the entity functions\<close>

text \<open>The list functions computed by the recursions are those of the library.\<close>

lemma arrayMap_eq_map: "arrayMap f xs = map f xs"
  by (induction xs) simp_all

lemma arrayFilter_eq_filter: "arrayFilter p xs = filter p xs"
  by (induction xs) simp_all

text \<open>Dropping the single key \<open>readonly\<close> removes that key and nothing else.\<close>

lemma fleece_readonly: "fleece [''readonly''] e = e(''readonly'' := None)"
  by (simp add: fleece_def)

text \<open>
  The destructured \<open>readonly\<close> differs from \<open>true\<close> unless the key is present with
  the boolean \<open>true\<close>.
\<close>

lemma isEditable_iff: "isEditableComplianceEntity e \<longleftrightarrow> e ''readonly'' \<noteq> Some (JBool True)"
  by (auto simp: isEditableComplianceEntity_def getProp_def strictNotEqual_def
      split: option.splits)

lemma isEditable_fleece: "isEditableComplianceEntity (fleece [''readonly''] e)"
  by (simp add: isEditable_iff fleece_readonly)

text \<open>
  C4: the option made from a data type record has the record's id as its value and
  its title as its label, and no \<open>isDisabled\<close>; the options made from a list have
  the length of the list, the option at each position is the one made from the
  element at that position, and the empty list gives the empty list.
\<close>

theorem getFieldIdentifierOptions_pointwise:
  "value_field (getFieldIdentifierOption d) = id_field d
   \<and> label (getFieldIdentifierOption d) = title d
   \<and> isDisabled (getFieldIdentifierOption d) = None
   \<and> length (getFieldIdentifierOptions ds) = length ds
   \<and> (\<forall>i<length ds. getFieldIdentifierOptions ds ! i = getFieldIdentifierOption (ds ! i))
   \<and> getFieldIdentifierOptions [] = []"
  by (simp add: getFieldIdentifierOption_def getFieldIdentifierOptions_def arrayMap_eq_map)

text \<open>The second of two catalog entries, at index 1.\<close>

theorem getFieldIdentifierOptions_pointwise_witness:
  "(1::nat) < length [\<lparr>id_field = ''MEMBER_ID'', title = ''Member ID''\<rparr>,
                      \<lparr>id_field = ''NONE'', title = ''None''\<rparr>]
   \<and> getFieldIdentifierOptions
         [\<lparr>id_field = ''MEMBER_ID'', title = ''Member ID''\<rparr>,
          \<lparr>id_field = ''NONE'', title = ''None''\<rparr>] ! 1
       = \<lparr>value_field = ''NONE'', label = ''None'', isDisabled = None\<rparr>"
proof -
  let ?ds = "[\<lparr>id_field = ''MEMBER_ID'', title = ''Member ID''\<rparr>,
              \<lparr>id_field = ''NONE'', title = ''None''\<rparr>]"
  have h: "(1::nat) < length ?ds" by simp
  have "\<forall>i<length ?ds. getFieldIdentifierOptions ?ds ! i = getFieldIdentifierOption (?ds ! i)"
    using getFieldIdentifierOptions_pointwise [of "?ds ! 1" ?ds] by blast
  with h have "getFieldIdentifierOptions ?ds ! 1 = getFieldIdentifierOption (?ds ! 1)"
    by blast
  with h show ?thesis by (simp add: getFieldIdentifierOption_def)
qed

text \<open>
  C5: an entity is not editable exactly when its \<open>readonly\<close> key is present with the
  boolean \<open>true\<close>. Without the key, or with \<open>false\<close>, the string \<open>'true'\<close>, the
  number \<open>1\<close>, \<open>undefined\<close> or \<open>null\<close> under it, the entity is editable: the
  comparison is strict, not a test for a truthy value.
\<close>

theorem isEditableComplianceEntity_strict:
  "(isEditableComplianceEntity e = False) = (e ''readonly'' = Some (JBool True))
   \<and> isEditableComplianceEntity Map.empty
   \<and> isEditableComplianceEntity [''readonly'' \<mapsto> JBool False]
   \<and> isEditableComplianceEntity [''readonly'' \<mapsto> JStr ''true'']
   \<and> isEditableComplianceEntity [''readonly'' \<mapsto> JNum 1]
   \<and> isEditableComplianceEntity [''readonly'' \<mapsto> JUndefined]
   \<and> isEditableComplianceEntity [''readonly'' \<mapsto> JNull]
   \<and> \<not> isEditableComplianceEntity [''readonly'' \<mapsto> JBool True]"
  by (simp add: isEditable_iff)

text \<open>
  C6: \<open>filterEditableEntities\<close> returns the editable entities of its input: every
  entity returned is editable, an entity that is not editable is not returned, each
  editable entity is returned as often as it occurs, the result is a subsequence of
  the input (the order of the survivors is kept), and it is no longer than the input.
\<close>

theorem filterEditableEntities_subsequence:
  "filterEditableEntities entities = filter isEditableComplianceEntity entities
   \<and> (\<forall>e \<in> set (filterEditableEntities entities). isEditableComplianceEntity e)
   \<and> (\<forall>e \<in> set entities. \<not> isEditableComplianceEntity e \<longrightarrow>
         e \<notin> set (filterEditableEntities entities))
   \<and> mset (filterEditableEntities entities) =
       filter_mset isEditableComplianceEntity (mset entities)
   \<and> subseq (filterEditableEntities entities) entities
   \<and> length (filterEditableEntities entities) \<le> length entities"
  by (simp add: filterEditableEntities_def arrayFilter_eq_filter)

text \<open>An editable entity followed by a read-only one: the first stays, the second goes.\<close>

theorem filterEditableEntities_subsequence_witness:
  "[''identifierField'' \<mapsto> JStr ''a''] \<in> set (filterEditableEntities
       [[''identifierField'' \<mapsto> JStr ''a''],
        [''identifierField'' \<mapsto> JStr ''b'', ''readonly'' \<mapsto> JBool True]])
   \<and> isEditableComplianceEntity [''identifierField'' \<mapsto> JStr ''a'']
   \<and> [''identifierField'' \<mapsto> JStr ''b'', ''readonly'' \<mapsto> JBool True] \<in> set
       [[''identifierField'' \<mapsto> JStr ''a''],
        [''identifierField'' \<mapsto> JStr ''b'', ''readonly'' \<mapsto> JBool True]]
   \<and> \<not> isEditableComplianceEntity
         [''identifierField'' \<mapsto> JStr ''b'', ''readonly'' \<mapsto> JBool True]
   \<and> [''identifierField'' \<mapsto> JStr ''b'', ''readonly'' \<mapsto> JBool True] \<notin> set
       (filterEditableEntities
         [[''identifierField'' \<mapsto> JStr ''a''],
          [''identifierField'' \<mapsto> JStr ''b'', ''readonly'' \<mapsto> JBool True]])"
proof -
  let ?a = "[''identifierField'' \<mapsto> JStr ''a'']"
  let ?b = "[''identifierField'' \<mapsto> JStr ''b'', ''readonly'' \<mapsto> JBool True]"
  note inst = filterEditableEntities_subsequence [of "[?a, ?b]"]
  have in_a: "?a \<in> set (filterEditableEntities [?a, ?b])"
    by (simp add: filterEditableEntities_def isEditableComplianceEntity_def getProp_def
        strictNotEqual_def)
  have in_b: "?b \<in> set [?a, ?b]" by simp
  have not_b: "\<not> isEditableComplianceEntity ?b"
    by (simp add: isEditableComplianceEntity_def getProp_def strictNotEqual_def)
  from inst in_a have ed_a: "isEditableComplianceEntity ?a" by blast
  from inst in_b not_b have out_b: "?b \<notin> set (filterEditableEntities [?a, ?b])" by blast
  from in_a ed_a in_b not_b out_b show ?thesis by blast
qed

text \<open>
  C8: \<open>removeReadonlyAttr\<close> is idempotent: applied to its own output it returns a
  list equal to that output.
\<close>

theorem removeReadonlyAttr_idempotent:
  "removeReadonlyAttr (removeReadonlyAttr entities) = removeReadonlyAttr entities"
  by (simp add: removeReadonlyAttr_def arrayMap_eq_map fleece_readonly)

text \<open>
  C10: every entity that \<open>removeReadonlyAttr\<close> returns is editable, so
  \<open>filterEditableEntities\<close> after \<open>removeReadonlyAttr\<close> returns the output of
  \<open>removeReadonlyAttr\<close> unchanged.
\<close>

theorem removeReadonlyAttr_all_editable:
  "(\<forall>e \<in> set (removeReadonlyAttr entities). isEditableComplianceEntity e)
   \<and> filterEditableEntities (removeReadonlyAttr entities) = removeReadonlyAttr entities"
proof -
  have all: "\<forall>e \<in> set (removeReadonlyAttr entities). isEditableComplianceEntity e"
    by (auto simp: removeReadonlyAttr_def arrayMap_eq_map isEditable_fleece)
  then have "filter isEditableComplianceEntity (removeReadonlyAttr entities) =
      removeReadonlyAttr entities"
    by (simp add: filter_id_conv)
  with all show ?thesis
    by (simp add: filterEditableEntities_def arrayFilter_eq_filter)
qed

text \<open>A read-only entity is editable once its \<open>readonly\<close> key is removed.\<close>

theorem removeReadonlyAttr_all_editable_witness:
  "[''identifierField'' \<mapsto> JStr ''b''] \<in> set (removeReadonlyAttr
       [[''identifierField'' \<mapsto> JStr ''b'', ''readonly'' \<mapsto> JBool True]])
   \<and> \<not> isEditableComplianceEntity
         [''identifierField'' \<mapsto> JStr ''b'', ''readonly'' \<mapsto> JBool True]
   \<and> isEditableComplianceEntity [''identifierField'' \<mapsto> JStr ''b'']
   \<and> filterEditableEntities (removeReadonlyAttr
       [[''identifierField'' \<mapsto> JStr ''b'', ''readonly'' \<mapsto> JBool True]]) =
      [[''identifierField'' \<mapsto> JStr ''b'']]"
  using removeReadonlyAttr_all_editable
    [of "[[''identifierField'' \<mapsto> JStr ''b'', ''readonly'' \<mapsto> JBool True]]"]
  by (simp add: removeReadonlyAttr_def fleece_def isEditableComplianceEntity_def
      getProp_def strictNotEqual_def)


section \<open>Properties of the sanitizer on the store\<close>

lemma fleece_store_eq:
  "fleece_store ks r s = (length s, s @ [fleece ks (s ! r)])"
  by (simp add: fleece_store_def alloc_def)

text \<open>
  The run in closed form: the results are the references following the old store, one
  for each input in its order, and the new store is the old one followed by the
  stripped copies.
\<close>

lemma arrayMap_store_fleece:
  "\<forall>r \<in> set rs. r < length s \<Longrightarrow>
   arrayMap_store (fleece_store ks) rs s =
     ([length s..<length s + length rs], s @ map (\<lambda>r. fleece ks (s ! r)) rs)"
proof (induction rs arbitrary: s)
  case Nil
  then show ?case by simp
next
  case (Cons r rs)
  let ?s1 = "s @ [fleece ks (s ! r)]"
  from Cons.prems have valid: "\<forall>q \<in> set rs. q < length ?s1" by auto
  from Cons.prems have same: "map (\<lambda>q. fleece ks (?s1 ! q)) rs = map (\<lambda>q. fleece ks (s ! q)) rs"
    by (simp add: nth_append)
  have ih: "arrayMap_store (fleece_store ks) rs ?s1 =
      ([Suc (length s)..<Suc (length s) + length rs],
       ?s1 @ map (\<lambda>q. fleece ks (s ! q)) rs)"
    using Cons.IH [OF valid] same by (simp del: upt_Suc)
  have first: "fleece_store ks r s = (length s, ?s1)"
    by (rule fleece_store_eq)
  have step: "arrayMap_store (fleece_store ks) (r # rs) s =
      (length s # [Suc (length s)..<Suc (length s) + length rs],
       ?s1 @ map (\<lambda>q. fleece ks (s ! q)) rs)"
    by (simp add: first ih del: upt_Suc)
  have refs: "[length s..<length s + length (r # rs)] =
      length s # [Suc (length s)..<Suc (length s) + length rs]"
    by (simp add: upt_conv_Cons del: upt_Suc)
  show ?case unfolding step refs by simp
qed

text \<open>
  C7: on references to objects of the store, \<open>removeReadonlyAttr\<close> returns as many
  references as it was given, in the same order; the object behind each has no
  \<open>readonly\<close> key and agrees with the input object at the same position on every
  other key; every object of the store before the call, the inputs among them, is
  unchanged after it; the references returned are new (beyond the old store) and
  distinct; and the objects returned are those that \<open>removeReadonlyAttr\<close> computes
  on the values.
\<close>

theorem removeReadonlyAttr_store_frame:
  assumes valid: "\<forall>r \<in> set rs. r < length s"
    and run: "removeReadonlyAttr_store rs s = (rs', s')"
  shows "length rs' = length rs
    \<and> (\<forall>i<length rs.
          ''readonly'' \<notin> dom (s' ! (rs' ! i))
          \<and> (\<forall>k. k \<noteq> ''readonly'' \<longrightarrow> (s' ! (rs' ! i)) k = (s ! (rs ! i)) k))
    \<and> (\<forall>a<length s. s' ! a = s ! a)
    \<and> (\<forall>r' \<in> set rs'. length s \<le> r' \<and> r' < length s')
    \<and> distinct rs'
    \<and> deref s' rs' = removeReadonlyAttr (deref s rs)"
proof -
  let ?f = "\<lambda>r. fleece [''readonly''] (s ! r)"
  from run arrayMap_store_fleece [OF valid, of "[''readonly'']"]
  have rs': "rs' = [length s..<length s + length rs]" and s': "s' = s @ map ?f rs"
    by (simp_all add: removeReadonlyAttr_store_def)
  have len: "length rs' = length rs" by (simp add: rs')
  have obj: "s' ! (rs' ! i) = fleece [''readonly''] (s ! (rs ! i))" if "i < length rs" for i
    using that by (simp add: rs' s' nth_append)
  have strip: "\<forall>i<length rs.
          ''readonly'' \<notin> dom (s' ! (rs' ! i))
          \<and> (\<forall>k. k \<noteq> ''readonly'' \<longrightarrow> (s' ! (rs' ! i)) k = (s ! (rs ! i)) k)"
    by (simp add: obj fleece_readonly)
  have frame: "\<forall>a<length s. s' ! a = s ! a" by (simp add: s' nth_append)
  have fresh: "\<forall>r' \<in> set rs'. length s \<le> r' \<and> r' < length s'" by (auto simp: rs' s')
  have dist: "distinct rs'" by (simp add: rs')
  have "deref s' rs' = map (fleece [''readonly'']) (deref s rs)"
    by (rule nth_equalityI) (simp_all add: deref_def len obj)
  then have refine: "deref s' rs' = removeReadonlyAttr (deref s rs)"
    by (simp add: removeReadonlyAttr_def arrayMap_eq_map)
  from len strip frame fresh dist refine show ?thesis by blast
qed

text \<open>
  A store of two objects, passed in the order second, first: the two copies are the
  new objects 2 and 3, and the old objects 0 and 1 are as before.
\<close>

theorem removeReadonlyAttr_store_frame_witness:
  "set [1, 0] \<subseteq> {..<length
        [[''identifierField'' \<mapsto> JStr ''a''],
         [''identifierField'' \<mapsto> JStr ''b'', ''readonly'' \<mapsto> JBool True]]}
   \<and> removeReadonlyAttr_store [1, 0]
        [[''identifierField'' \<mapsto> JStr ''a''],
         [''identifierField'' \<mapsto> JStr ''b'', ''readonly'' \<mapsto> JBool True]] =
      ([2, 3],
        [[''identifierField'' \<mapsto> JStr ''a''],
         [''identifierField'' \<mapsto> JStr ''b'', ''readonly'' \<mapsto> JBool True],
         [''identifierField'' \<mapsto> JStr ''b''],
         [''identifierField'' \<mapsto> JStr ''a'']])
   \<and> deref
        [[''identifierField'' \<mapsto> JStr ''a''],
         [''identifierField'' \<mapsto> JStr ''b'', ''readonly'' \<mapsto> JBool True],
         [''identifierField'' \<mapsto> JStr ''b''],
         [''identifierField'' \<mapsto> JStr ''a'']] [2, 3] =
      removeReadonlyAttr (deref
        [[''identifierField'' \<mapsto> JStr ''a''],
         [''identifierField'' \<mapsto> JStr ''b'', ''readonly'' \<mapsto> JBool True]] [1, 0])"
proof -
  let ?a = "[''identifierField'' \<mapsto> JStr ''a'']"
  let ?b = "[''identifierField'' \<mapsto> JStr ''b'', ''readonly'' \<mapsto> JBool True]"
  let ?b' = "[''identifierField'' \<mapsto> JStr ''b'']"
  have valid: "\<forall>r \<in> set [1, 0]. r < length [?a, ?b]" by simp
  have b': "?b(''readonly'' := None) = ?b'" by (auto simp: fun_eq_iff)
  have a': "?a(''readonly'' := None) = ?a" by (auto simp: fun_eq_iff)
  have run: "removeReadonlyAttr_store [1, 0] [?a, ?b] = ([2, 3], [?a, ?b, ?b', ?a])"
    by (simp add: removeReadonlyAttr_store_def fleece_store_def alloc_def fleece_def a' b')
  from removeReadonlyAttr_store_frame [OF valid run]
  have "deref [?a, ?b, ?b', ?a] [2, 3] = removeReadonlyAttr (deref [?a, ?b] [1, 0])"
    by blast
  moreover have "set [1, 0] \<subseteq> {..<length [?a, ?b]}" by simp
  ultimately show ?thesis using run by blast
qed

end
